theory Spec2Isabelle
  imports Complex_Main
begin

chapter \<open>The program\<close>

section \<open>Text and exceptions\<close>

text \<open>
  A Python \<open>str\<close> is modelled as a \<open>string\<close>: an ASCII character is one \<open>char\<close>, any other
  character is the bytes of its UTF-8 encoding (the encoding both files of the program are
  written in). The parsers below classify ASCII digits and ASCII whitespace only; what the
  interpreter does with decimal digits and spaces beyond ASCII is outside the model, and the
  theorems that depend on it are stated for ASCII input.

  The interpreter is CPython 3.11 with its default settings.
\<close>

datatype exn =
    ValueError | OverflowError | KeyError | TypeError | EOFError | CsvError

definition is_ascii :: "string \<Rightarrow> bool" where
  "is_ascii s \<longleftrightarrow> list_all (\<lambda>c. (of_char c :: nat) < 128) s"

definition is_digit :: "char \<Rightarrow> bool" where
  "is_digit c \<longleftrightarrow> 48 \<le> (of_char c :: nat) \<and> (of_char c :: nat) \<le> 57"

definition digit_val :: "char \<Rightarrow> nat" where
  "digit_val c = of_char c - 48"

text \<open>\<open>Py_ISSPACE\<close>: tab, line feed, vertical tab, form feed, carriage return, space.\<close>

definition py_isspace :: "char \<Rightarrow> bool" where
  "py_isspace c \<longleftrightarrow> (9 \<le> (of_char c :: nat) \<and> (of_char c :: nat) \<le> 13) \<or> c = CHR '' ''"

fun digits_val :: "nat \<Rightarrow> string \<Rightarrow> nat" where
  "digits_val acc [] = acc"
| "digits_val acc (c # cs) = digits_val (10 * acc + digit_val c) cs"

text \<open>
  Underscores in a numeric literal: allowed only between two digits. The function follows the
  loop of \<open>_Py_string_to_number_with_underscores\<close>, which copies the text without its
  underscores and remembers the previous character.
\<close>

fun drop_underscores :: "char \<Rightarrow> string \<Rightarrow> string option" where
  "drop_underscores prev [] = (if prev = CHR ''_'' then None else Some [])"
| "drop_underscores prev (c # cs) =
     (if c = CHR ''_'' then (if is_digit prev then drop_underscores c cs else None)
      else if prev = CHR ''_'' \<and> \<not> is_digit c then None
      else map_option ((#) c) (drop_underscores c cs))"

definition split_sign :: "string \<Rightarrow> bool \<times> string" where
  "split_sign s =
     (case s of
        [] \<Rightarrow> (False, [])
      | c # r \<Rightarrow> if c = CHR ''-'' then (True, r) else if c = CHR ''+'' then (False, r) else (False, s))"

section \<open>\<open>int(text)\<close>\<close>

text \<open>
  \<open>int\<close> of a \<open>str\<close> in base 10 (\<open>PyLong_FromString\<close>): leading whitespace, an optional
  sign, digits with single underscores between them, trailing whitespace. More than 4300
  digits are refused (the default of \<open>sys.set_int_max_str_digits\<close>). Every failure is a
  \<open>ValueError\<close>.
\<close>

definition max_str_digits :: nat where
  "max_str_digits = 4300"

definition py_int :: "string \<Rightarrow> exn + int" where
  "py_int s =
     (let (neg, s2) = split_sign (dropWhile py_isspace s);
          body = takeWhile (\<lambda>c. is_digit c \<or> c = CHR ''_'') s2;
          rest = dropWhile (\<lambda>c. is_digit c \<or> c = CHR ''_'') s2
      in case drop_underscores (CHR 0x00) body of
           None \<Rightarrow> Inl ValueError
         | Some ds \<Rightarrow>
             if ds = [] \<or> max_str_digits < length ds \<or> \<not> list_all py_isspace rest
             then Inl ValueError
             else Inr (if neg then - int (digits_val 0 ds) else int (digits_val 0 ds)))"

section \<open>Floats\<close>

text \<open>
  A Python \<open>float\<close> is an IEEE 754 binary64. A finite binary64 is \<open>m \<sqdot> 2\<^sup>e\<close> for integers
  \<open>m\<close> and \<open>e\<close> with \<open>\<bar>m\<bar> < 2\<^sup>5\<^sup>3\<close> and \<open>-1074 \<le> e\<close>, of magnitude below \<open>2\<^sup>1\<^sup>0\<^sup>2\<^sup>4\<close>.
  \<open>Finite m e\<close> is that float; the functions below return it in lowest terms (\<open>m\<close> odd, or
  \<open>Finite 0 0\<close>). The model keeps the numeric value, so the two zeros of binary64, which
  Python's \<open>==\<close> does not tell apart, are one value.
\<close>

datatype pyfloat = Finite int int | PosInf | NegInf | NaN

fun bit_length :: "nat \<Rightarrow> nat" where
  "bit_length n = (if n = 0 then 0 else Suc (bit_length (n div 2)))"

declare bit_length.simps [simp del]

function norm_float :: "int \<Rightarrow> int \<Rightarrow> pyfloat" where
  "norm_float m e =
     (if m = 0 then Finite 0 0
      else if even m then norm_float (m div 2) (e + 1)
      else Finite m e)"
  by pat_completeness auto
termination
  by (relation "measure (\<lambda>(m, e). nat \<bar>m\<bar>)") auto

declare norm_float.simps [simp del]

definition round_half_even :: "nat \<Rightarrow> nat \<Rightarrow> nat" where
  "round_half_even n d =
     (let q = n div d; r = n mod d
      in if 2 * r < d then q else if d < 2 * r then q + 1 else if even q then q else q + 1)"

text \<open>
  Rounding \<open>n / d\<close> to nearest, ties to even: the result \<open>(m, e)\<close> stands for \<open>m \<sqdot> 2\<^sup>e\<close>. The
  value is first scaled by \<open>2\<^sup>s\<close> so that its integer part has more than 53 bits; the length
  \<open>b\<close> of that integer part gives the exponent \<open>e\<close> of the last of the 53 bits a float
  keeps, which is never below \<open>-1074\<close>; the value is then rounded to a whole multiple of
  \<open>2\<^sup>e\<close>.
\<close>

definition round_ratio :: "nat \<Rightarrow> nat \<Rightarrow> nat \<times> int" where
  "round_ratio n d =
     (let s = nat (54 + int (bit_length d) - int (bit_length n));
          b = bit_length ((n * 2 ^ s) div d);
          e = max (int b - 53 - int s) (- 1074)
      in (if 0 \<le> e then round_half_even n (d * 2 ^ nat e)
          else round_half_even (n * 2 ^ nat (- e)) d, e))"

text \<open>The float nearest to \<open>\<plusminus> n / d\<close>; a value that rounds to \<open>2\<^sup>1\<^sup>0\<^sup>2\<^sup>4\<close> or more is infinite.\<close>

definition nearest_float :: "bool \<Rightarrow> nat \<Rightarrow> nat \<Rightarrow> pyfloat" where
  "nearest_float neg n d =
     (let (m, e) = round_ratio n d
      in if 1024 < int (bit_length m) + e then (if neg then NegInf else PosInf)
         else norm_float (if neg then - int m else int m) e)"

text \<open>The float nearest to \<open>\<plusminus> m \<sqdot> 10\<^sup>e\<close>, as \<open>float\<close> makes it from a decimal literal.\<close>

definition decimal_float :: "bool \<Rightarrow> nat \<Rightarrow> int \<Rightarrow> pyfloat" where
  "decimal_float neg m e =
     (if 0 \<le> e then nearest_float neg (m * 10 ^ nat e) 1
      else nearest_float neg m (10 ^ nat (- e)))"

text \<open>
  \<open>float\<close> of an \<open>int\<close>: the nearest float; \<open>None\<close> is the
  \<open>OverflowError\<close> with the message \<open>int_too_large\<close>, raised when that float is not finite.
  \<open>float\<close> of a \<open>float\<close> is the float itself.
\<close>

datatype pynum = PyInt int | PyFloat pyfloat

definition float_of_int :: "int \<Rightarrow> pyfloat option" where
  "float_of_int n =
     (case nearest_float (n < 0) (nat \<bar>n\<bar>) 1 of
        Finite m e \<Rightarrow> Some (Finite m e)
      | _ \<Rightarrow> None)"

definition py_float_num :: "pynum \<Rightarrow> pyfloat option" where
  "py_float_num v = (case v of PyInt n \<Rightarrow> float_of_int n | PyFloat f \<Rightarrow> Some f)"

definition int_too_large :: string where
  "int_too_large = ''int too large to convert to float''"

text \<open>
  \<open>int\<close> of a \<open>float\<close>: truncation toward zero; \<open>OverflowError\<close> for an infinity and
  \<open>ValueError\<close> for a NaN.
\<close>

definition int_of_float :: "pyfloat \<Rightarrow> exn + int" where
  "int_of_float f =
     (case f of
        Finite m e \<Rightarrow>
          Inr (if 0 \<le> e then m * 2 ^ nat e
               else if m < 0 then - (\<bar>m\<bar> div 2 ^ nat (- e))
               else m div 2 ^ nat (- e))
      | PosInf \<Rightarrow> Inl OverflowError
      | NegInf \<Rightarrow> Inl OverflowError
      | NaN \<Rightarrow> Inl ValueError)"

text \<open>Float addition: the exact sum, rounded; the IEEE rules for infinities and NaN.\<close>

definition float_add :: "pyfloat \<Rightarrow> pyfloat \<Rightarrow> pyfloat" where
  "float_add x y =
     (case (x, y) of
        (NaN, _) \<Rightarrow> NaN
      | (_, NaN) \<Rightarrow> NaN
      | (PosInf, NegInf) \<Rightarrow> NaN
      | (NegInf, PosInf) \<Rightarrow> NaN
      | (PosInf, _) \<Rightarrow> PosInf
      | (_, PosInf) \<Rightarrow> PosInf
      | (NegInf, _) \<Rightarrow> NegInf
      | (_, NegInf) \<Rightarrow> NegInf
      | (Finite m1 e1, Finite m2 e2) \<Rightarrow>
          (let e = min e1 e2;
               s = m1 * 2 ^ nat (e1 - e) + m2 * 2 ^ nat (e2 - e)
           in if 0 \<le> e then nearest_float (s < 0) (nat \<bar>s\<bar> * 2 ^ nat e) 1
              else nearest_float (s < 0) (nat \<bar>s\<bar>) (2 ^ nat (- e))))"

text \<open>Python's \<open>==\<close> between two numbers compares the exact values; a NaN equals nothing.\<close>

definition float_eq :: "pyfloat \<Rightarrow> pyfloat \<Rightarrow> bool" where
  "float_eq x y =
     (case (x, y) of
        (Finite m1 e1, Finite m2 e2) \<Rightarrow>
          m1 * 2 ^ nat (e1 - min e1 e2) = m2 * 2 ^ nat (e2 - min e1 e2)
      | (PosInf, PosInf) \<Rightarrow> True
      | (NegInf, NegInf) \<Rightarrow> True
      | _ \<Rightarrow> False)"

definition int_eq_float :: "int \<Rightarrow> pyfloat \<Rightarrow> bool" where
  "int_eq_float a x = (case x of Finite m e \<Rightarrow> float_eq (Finite a 0) (Finite m e) | _ \<Rightarrow> False)"

definition num_eq :: "pynum \<Rightarrow> pynum \<Rightarrow> bool" where
  "num_eq v w =
     (case (v, w) of
        (PyInt a, PyInt b) \<Rightarrow> a = b
      | (PyInt a, PyFloat y) \<Rightarrow> int_eq_float a y
      | (PyFloat x, PyInt b) \<Rightarrow> int_eq_float b x
      | (PyFloat x, PyFloat y) \<Rightarrow> float_eq x y)"

section \<open>\<open>float(text)\<close>\<close>

definition lower_ascii :: "char \<Rightarrow> char" where
  "lower_ascii c =
     (case map_of (zip ''ABCDEFGHIJKLMNOPQRSTUVWXYZ'' ''abcdefghijklmnopqrstuvwxyz'') c of
        None \<Rightarrow> c
      | Some l \<Rightarrow> l)"

text \<open>
  The literal after its sign (\<open>_Py_dg_strtod\<close>, then \<open>_Py_parse_inf_or_nan\<close>): digits, an
  optional point and more digits, at least one digit in all, an optional exponent of at
  least one digit; or one of the words inf, infinity, nan in any case. The whole text has
  to be used up.
\<close>

definition parse_exponent :: "string \<Rightarrow> int option" where
  "parse_exponent s =
     (case s of
        [] \<Rightarrow> Some 0
      | c # r \<Rightarrow>
          if c = CHR ''e'' \<or> c = CHR ''E'' then
            (let (neg, ds) = split_sign r
             in if ds \<noteq> [] \<and> list_all is_digit ds
                then Some (if neg then - int (digits_val 0 ds) else int (digits_val 0 ds))
                else None)
          else None)"

definition parse_decimal :: "string \<Rightarrow> (nat \<times> int) option" where
  "parse_decimal s =
     (let ip = takeWhile is_digit s; r1 = dropWhile is_digit s;
          (fp, r2) = (case r1 of
                        [] \<Rightarrow> ([], [])
                      | c # r \<Rightarrow> if c = CHR ''.'' then (takeWhile is_digit r, dropWhile is_digit r)
                                else ([], r1))
      in if ip = [] \<and> fp = [] then None
         else case parse_exponent r2 of
                None \<Rightarrow> None
              | Some e \<Rightarrow> Some (digits_val 0 (ip @ fp), e - int (length fp)))"

definition parse_float_body :: "string \<Rightarrow> pyfloat option" where
  "parse_float_body s =
     (let (neg, r) = split_sign s; w = map lower_ascii r
      in if w = ''inf'' \<or> w = ''infinity'' then Some (if neg then NegInf else PosInf)
         else if w = ''nan'' then Some NaN
         else case parse_decimal r of
                None \<Rightarrow> None
              | Some (m, e) \<Rightarrow> Some (decimal_float neg m e))"

text \<open>
  \<open>float\<close> of a \<open>str\<close> (\<open>float_from_string\<close>): whitespace is stripped on both sides,
  underscores are checked and removed, and the rest is the literal. An overflowing literal
  is an infinity, not an error. Every failure is a \<open>ValueError\<close>.
\<close>

definition py_strip :: "string \<Rightarrow> string" where
  "py_strip s = rev (dropWhile py_isspace (rev (dropWhile py_isspace s)))"

definition py_float :: "string \<Rightarrow> exn + pyfloat" where
  "py_float s =
     (case drop_underscores (CHR 0x00) (py_strip s) of
        None \<Rightarrow> Inl ValueError
      | Some t \<Rightarrow> (case parse_float_body t of None \<Rightarrow> Inl ValueError | Some f \<Rightarrow> Inr f))"

section \<open>\<open>str(number)\<close>\<close>

text \<open>
  \<open>str\<close> of an \<open>int\<close>: its decimal digits, after a minus sign when negative; a
  \<open>ValueError\<close> when there are more than 4300 digits. \<open>str\<close> of a \<open>float\<close> is its
  shortest decimal text that reads back as the same float; that algorithm is not modelled
  and is a parameter, \<open>float_repr\<close>, of the functions that write numbers.
\<close>

definition digit_char :: "nat \<Rightarrow> char" where
  "digit_char d = ''0123456789'' ! d"

fun nat_digits :: "nat \<Rightarrow> string" where
  "nat_digits n =
     (if n < 10 then [digit_char n]
      else nat_digits (n div 10) @ [digit_char (n mod 10)])"

declare nat_digits.simps [simp del]

definition py_str_int :: "int \<Rightarrow> exn + string" where
  "py_str_int n =
     (let ds = nat_digits (nat \<bar>n\<bar>)
      in if max_str_digits < length ds then Inl ValueError
         else Inr (if n < 0 then CHR ''-'' # ds else ds))"

definition py_str_num :: "(pyfloat \<Rightarrow> string) \<Rightarrow> pynum \<Rightarrow> exn + string" where
  "py_str_num float_repr v =
     (case v of PyInt n \<Rightarrow> py_str_int n | PyFloat f \<Rightarrow> Inr (float_repr f))"

section \<open>Records, cells and what the program prints\<close>

text \<open>
  A transaction is a \<open>dict\<close> with the three keys of line 79. The date and the category
  are strings; \<open>None\<close> stands for Python's \<open>None\<close>, which \<open>load_from_csv\<close> can put there
  when a row of the file is short. The amount is the \<open>int\<close> of \<open>input_amount\<close> or the
  \<open>float\<close> of \<open>load_from_csv\<close>.
\<close>

record transaction =
  date :: "string option"
  category :: "string option"
  amount :: pynum

datatype cell = CellStr string | CellNum pyfloat | CellNone

text \<open>
  What the program prints or shows. Each constructor stands for one \<open>print\<close> call of
  \<open>wallet.py\<close> (the five of the menu are one); an interpolated value of an f-string is the
  constructor's argument. The prompts of \<open>input\<close> are not recorded.
\<close>

datatype notice =
    DateFormatNotice          \<comment> \<open>line 37: the date must be typed as YYYY/MM/DD\<close>
  | CategoryHeading           \<comment> \<open>line 42: choose a category\<close>
  | CategoryItem nat string   \<comment> \<open>line 44: \<open>i. cat\<close>\<close>
  | InvalidNumberNotice       \<comment> \<open>line 51: the number is not valid, type it again\<close>
  | DigitsOnlyNotice          \<comment> \<open>line 54: type a number\<close>
  | AmountNotNumberNotice     \<comment> \<open>line 63: the amount must be a number\<close>
  | NoTableDataNotice         \<comment> \<open>line 132: nothing is registered\<close>
  | Table "transaction list"  \<comment> \<open>line 134: the grid \<open>tabulate\<close> draws\<close>
  | NoGraphDataNotice         \<comment> \<open>line 146: nothing registered, no graph can be shown\<close>
  | BarChart "string option list" "pyfloat list"
                              \<comment> \<open>lines 163-168: the bar chart, categories and amounts\<close>
  | ExcelSavedNotice string   \<comment> \<open>line 195: the data was saved to the Excel file (filename)\<close>
  | ExcelCountNotice nat      \<comment> \<open>line 196: the data has (dc) entries\<close>
  | ExcelErrorNotice string   \<comment> \<open>line 199: an error occurred while saving to Excel: (e)\<close>
  | MenuNotice                \<comment> \<open>lines 207-211: the five menu entries\<close>
  | RegisteredNotice          \<comment> \<open>line 220: the entry was registered\<close>
  | ExitNotice                \<comment> \<open>line 232: the application ends\<close>
  | BadChoiceNotice           \<comment> \<open>line 236: not a menu number\<close>

text \<open>The three keys (lines 79, 91, 114-116, 185) and the five categories (line 74), in UTF-8.\<close>

definition key_date :: string where
  "key_date = [CHR 0xE6, CHR 0x97, CHR 0xA5, CHR 0xE4, CHR 0xBB, CHR 0x98]"

definition key_category :: string where
  "key_category = [CHR 0xE3, CHR 0x82, CHR 0xAB, CHR 0xE3, CHR 0x83, CHR 0x86,
                   CHR 0xE3, CHR 0x82, CHR 0xB4, CHR 0xE3, CHR 0x83, CHR 0xAA]"

definition key_amount :: string where
  "key_amount = [CHR 0xE9, CHR 0x87, CHR 0x91, CHR 0xE9, CHR 0xA1, CHR 0x8D]"

definition fieldnames :: "string list" where
  "fieldnames = [key_date, key_category, key_amount]"

definition categories :: "string list" where
  "categories =
     [[CHR 0xE9, CHR 0xA3, CHR 0x9F, CHR 0xE8, CHR 0xB2, CHR 0xBB],
      [CHR 0xE4, CHR 0xBA, CHR 0xA4, CHR 0xE9, CHR 0x80, CHR 0x9A, CHR 0xE8, CHR 0xB2, CHR 0xBB],
      [CHR 0xE6, CHR 0x97, CHR 0xA5, CHR 0xE7, CHR 0x94, CHR 0xA8, CHR 0xE5, CHR 0x93, CHR 0x81],
      [CHR 0xE8, CHR 0xB6, CHR 0xA3, CHR 0xE5, CHR 0x91, CHR 0xB3, CHR 0x2F, CHR 0xE4, CHR 0xBA,
       CHR 0xA4, CHR 0xE9, CHR 0x9A, CHR 0x9B, CHR 0xE8, CHR 0xB2, CHR 0xBB],
      [CHR 0xE3, CHR 0x81, CHR 0x9D, CHR 0xE3, CHR 0x81, CHR 0xAE, CHR 0xE4, CHR 0xBB, CHR 0x96]]"

definition sheet_title :: string where
  "sheet_title = [CHR 0xE5, CHR 0xAE, CHR 0xB6, CHR 0xE8, CHR 0xA8, CHR 0x88, CHR 0xE7, CHR 0xB0,
                  CHR 0xBF, CHR 0xE3, CHR 0x82, CHR 0xA2, CHR 0xE3, CHR 0x83, CHR 0x97, CHR 0xE3,
                  CHR 0x83, CHR 0xAA]"

definition csv_filename :: string where
  "csv_filename = ''wallet_data.csv''"

definition xlsx_filename :: string where
  "xlsx_filename = ''wallet_data.xlsx''"

section \<open>The input functions\<close>

text \<open>
  One pass through the body of a \<open>while True\<close> input loop: the value the loop returns,
  the notice printed before the next prompt, or an exception no handler of the loop catches.
\<close>

datatype 'a attempt = Return 'a | Retry notice | Uncaught exn

text \<open>
  The loop itself. The standard input is the list of the lines still to be typed;
  \<open>input\<close> at its end raises \<open>EOFError\<close>, which no handler of the program catches. The result
  is the value or the exception, the lines left, and the notices printed.
\<close>

fun prompt_loop ::
  "(string \<Rightarrow> 'a attempt) \<Rightarrow> string list \<Rightarrow> (exn + 'a) \<times> string list \<times> notice list" where
  "prompt_loop body [] = (Inl EOFError, [], [])"
| "prompt_loop body (line # rest) =
     (case body line of
        Return v \<Rightarrow> (Inr v, rest, [])
      | Uncaught e \<Rightarrow> (Inl e, rest, [])
      | Retry msg \<Rightarrow> (case prompt_loop body rest of (r, rest', out) \<Rightarrow> (r, rest', msg # out)))"

definition handle_value_error :: "notice \<Rightarrow> exn + 'a \<Rightarrow> 'a attempt" where
  "handle_value_error msg r =
     (case r of
        Inr v \<Rightarrow> Return v
      | Inl e \<Rightarrow> if e = ValueError then Retry msg else Uncaught e)"

subsection \<open>\<open>input_date\<close> (lines 29-37)\<close>

text \<open>
  \<open>datetime.strptime(date, "%Y/%m/%d")\<close> matches the text against the regular expression
  \<^verbatim>\<open>(?P<Y>\d\d\d\d)/(?P<m>1[0-2]|0[1-9]|[1-9])/(?P<d>3[0-1]|[1-2]\d|0[1-9]|[1-9]| [1-9])\<close>,
  refuses text left over after the match, and builds the date, which fails for the year 0
  and for a day the month does not have. Each failure is a \<open>ValueError\<close>.

  The alternatives of a group are tried in order. Where one of the first two alternatives of
  the month matches, the third cannot be followed by the \<open>/\<close>, so taking the
  first alternative that matches is what the backtracking matcher does.
\<close>

definition nonzero_digit :: "char \<Rightarrow> bool" where
  "nonzero_digit c \<longleftrightarrow> 49 \<le> (of_char c :: nat) \<and> (of_char c :: nat) \<le> 57"

definition match_Y :: "string \<Rightarrow> (nat \<times> string) option" where
  "match_Y s =
     (case s of
        a # b # c # d # r \<Rightarrow>
          if is_digit a \<and> is_digit b \<and> is_digit c \<and> is_digit d
          then Some (digits_val 0 [a, b, c, d], r) else None
      | _ \<Rightarrow> None)"

definition match_m :: "string \<Rightarrow> (nat \<times> string) option" where
  "match_m s =
     (case s of
        [] \<Rightarrow> None
      | a # r \<Rightarrow>
          (case r of
             [] \<Rightarrow> if nonzero_digit a then Some (digit_val a, r) else None
           | b # r' \<Rightarrow>
               if a = CHR ''1'' \<and> (b = CHR ''0'' \<or> b = CHR ''1'' \<or> b = CHR ''2'')
               then Some (10 + digit_val b, r')
               else if a = CHR ''0'' \<and> nonzero_digit b then Some (digit_val b, r')
               else if nonzero_digit a then Some (digit_val a, r)
               else None))"

definition match_d :: "string \<Rightarrow> (nat \<times> string) option" where
  "match_d s =
     (case s of
        [] \<Rightarrow> None
      | a # r \<Rightarrow>
          (case r of
             [] \<Rightarrow> if nonzero_digit a then Some (digit_val a, r) else None
           | b # r' \<Rightarrow>
               if a = CHR ''3'' \<and> (b = CHR ''0'' \<or> b = CHR ''1'')
               then Some (30 + digit_val b, r')
               else if (a = CHR ''1'' \<or> a = CHR ''2'') \<and> is_digit b
               then Some (10 * digit_val a + digit_val b, r')
               else if a = CHR ''0'' \<and> nonzero_digit b then Some (digit_val b, r')
               else if nonzero_digit a then Some (digit_val a, r)
               else if a = CHR '' '' \<and> nonzero_digit b then Some (digit_val b, r')
               else None))"

definition is_leap :: "nat \<Rightarrow> bool" where
  "is_leap y \<longleftrightarrow> y mod 4 = 0 \<and> (y mod 100 \<noteq> 0 \<or> y mod 400 = 0)"

definition days_in_month :: "nat \<Rightarrow> nat \<Rightarrow> nat" where
  "days_in_month y m =
     (if m = 2 then (if is_leap y then 29 else 28)
      else if m = 4 \<or> m = 6 \<or> m = 9 \<or> m = 11 then 30
      else 31)"

definition strptime_Ymd :: "string \<Rightarrow> exn + nat \<times> nat \<times> nat" where
  "strptime_Ymd s =
     (case match_Y s of
        None \<Rightarrow> Inl ValueError
      | Some (y, r1) \<Rightarrow>
          (case r1 of
             [] \<Rightarrow> Inl ValueError
           | c1 # r2 \<Rightarrow>
               if c1 \<noteq> CHR ''/'' then Inl ValueError
               else (case match_m r2 of
                  None \<Rightarrow> Inl ValueError
                | Some (m, r3) \<Rightarrow>
                    (case r3 of
                       [] \<Rightarrow> Inl ValueError
                     | c2 # r4 \<Rightarrow>
                         if c2 \<noteq> CHR ''/'' then Inl ValueError
                         else (case match_d r4 of
                            None \<Rightarrow> Inl ValueError
                          | Some (d, r5) \<Rightarrow>
                              if r5 \<noteq> [] then Inl ValueError
                              else if y < 1 \<or> days_in_month y m < d then Inl ValueError
                              else Inr (y, m, d))))))"

text \<open>The function returns the text as it was typed, not the parsed date.\<close>

definition input_date_attempt :: "string \<Rightarrow> string attempt" where
  "input_date_attempt line =
     handle_value_error DateFormatNotice
       (case strptime_Ymd line of Inl e \<Rightarrow> Inl e | Inr _ \<Rightarrow> Inr line)"

definition input_date :: "string list \<Rightarrow> (exn + string) \<times> string list \<times> notice list" where
  "input_date stdin = prompt_loop input_date_attempt stdin"

subsection \<open>\<open>input_category\<close> (lines 40-54)\<close>

text \<open>
  Python's \<open>categories[category_index]\<close> is reached only under the guard
  \<open>0 <= category_index < len(categories)\<close>, so the index is in range where \<open>!\<close> is used.
\<close>

definition input_category_attempt :: "'c list \<Rightarrow> string \<Rightarrow> 'c attempt" where
  "input_category_attempt cats line =
     (case py_int line of
        Inl e \<Rightarrow> if e = ValueError then Retry DigitsOnlyNotice else Uncaught e
      | Inr n \<Rightarrow>
          (let category_index = n - 1
           in if 0 \<le> category_index \<and> category_index < int (length cats)
              then Return (cats ! nat category_index)
              else Retry InvalidNumberNotice))"

definition input_category ::
  "string list \<Rightarrow> string list \<Rightarrow> (exn + string) \<times> string list \<times> notice list" where
  "input_category cats stdin =
     (case prompt_loop (input_category_attempt cats) stdin of
        (r, rest, out) \<Rightarrow>
          (r, rest, CategoryHeading # map (\<lambda>(i, cat). CategoryItem (Suc i) cat) (enumerate 0 cats) @ out))"

subsection \<open>\<open>input_amount\<close> (lines 57-63)\<close>

text \<open>
  \<open>int(float(input(...)))\<close> under \<open>except ValueError\<close>: a \<open>ValueError\<close> of either conversion
  prints the notice and asks again; any other exception leaves the function.
\<close>

definition input_amount_attempt :: "string \<Rightarrow> int attempt" where
  "input_amount_attempt line =
     handle_value_error AmountNotNumberNotice
       (case py_float line of Inl e \<Rightarrow> Inl e | Inr f \<Rightarrow> int_of_float f)"

definition input_amount :: "string list \<Rightarrow> (exn + int) \<times> string list \<times> notice list" where
  "input_amount stdin = prompt_loop input_amount_attempt stdin"

subsection \<open>\<open>add_transaction\<close> (lines 66-79)\<close>

definition add_transaction ::
  "string list \<Rightarrow> (exn + transaction) \<times> string list \<times> notice list" where
  "add_transaction stdin =
     (case input_date stdin of
        (Inl e, rest1, out1) \<Rightarrow> (Inl e, rest1, out1)
      | (Inr d, rest1, out1) \<Rightarrow>
          (case input_category categories rest1 of
             (Inl e, rest2, out2) \<Rightarrow> (Inl e, rest2, out1 @ out2)
           | (Inr c, rest2, out2) \<Rightarrow>
               (case input_amount rest2 of
                  (Inl e, rest3, out3) \<Rightarrow> (Inl e, rest3, out1 @ out2 @ out3)
                | (Inr a, rest3, out3) \<Rightarrow>
                    (Inr \<lparr>date = Some d, category = Some c, amount = PyInt a\<rparr>,
                     rest3, out1 @ out2 @ out3))))"

section \<open>Showing the ledger\<close>

subsection \<open>\<open>display_table\<close> (lines 124-134)\<close>

definition display_table :: "transaction list \<Rightarrow> notice list" where
  "display_table transaction_list =
     (if transaction_list = [] then [NoTableDataNotice] else [Table transaction_list])"

subsection \<open>\<open>plot_graph\<close> (lines 137-168)\<close>

text \<open>
  \<open>category_totals\<close> is a \<open>dict\<close>, which keeps its keys in the order of their first
  insertion: a list of pairs with distinct keys. \<open>totals_add\<close> is the body of the loop
  (lines 154-158): add to the entry of the key where it is, or append a new entry.
\<close>

fun totals_add :: "('k \<times> pyfloat) list \<Rightarrow> 'k \<Rightarrow> pyfloat \<Rightarrow> ('k \<times> pyfloat) list" where
  "totals_add [] k a = [(k, a)]"
| "totals_add ((k', v) # kvs) k a =
     (if k' = k then (k', float_add v a) # kvs else (k', v) # totals_add kvs k a)"

fun category_totals_from ::
  "(string option \<times> pyfloat) list \<Rightarrow> transaction list \<Rightarrow> exn + (string option \<times> pyfloat) list" where
  "category_totals_from totals [] = Inr totals"
| "category_totals_from totals (row # rows) =
     (case py_float_num (amount row) of
        None \<Rightarrow> Inl OverflowError
      | Some a \<Rightarrow> category_totals_from (totals_add totals (category row) a) rows)"

definition category_totals :: "transaction list \<Rightarrow> exn + (string option \<times> pyfloat) list" where
  "category_totals transaction_list = category_totals_from [] transaction_list"

definition plot_graph :: "transaction list \<Rightarrow> exn + notice list" where
  "plot_graph transaction_list =
     (if transaction_list = [] then Inr [NoGraphDataNotice]
      else case category_totals transaction_list of
             Inl e \<Rightarrow> Inl e
           | Inr totals \<Rightarrow> Inr [BarChart (map fst totals) (map snd totals)])"

section \<open>\<open>save_to_excel\<close> (lines 171-199)\<close>

text \<open>
  The workbook is the list of the rows appended to its sheet. \<open>openpyxl\<close> and the file
  system are not part of the program: whether \<open>ws.append\<close> refuses a row and whether
  \<open>wb.save\<close> fails are parameters, each giving the message (\<open>str(e)\<close>) of the exception
  raised, or \<open>None\<close>. Inside the \<open>try\<close> block \<open>Inl msg\<close> is an exception with that message;
  the handler catches every \<open>Exception\<close> and prints it.
\<close>

record xl_library =
  append_error :: "cell list \<Rightarrow> string option"
  save_error :: "string \<Rightarrow> cell list list \<Rightarrow> string option"

definition str_cell :: "string option \<Rightarrow> cell" where
  "str_cell v = (case v of None \<Rightarrow> CellNone | Some s \<Rightarrow> CellStr s)"

definition xl_header :: "cell list" where
  "xl_header = [CellStr key_date, CellStr key_category, CellStr key_amount]"

fun xl_rows ::
  "xl_library \<Rightarrow> cell list list \<Rightarrow> nat \<Rightarrow> transaction list \<Rightarrow> string + cell list list \<times> nat" where
  "xl_rows lib ws dc [] = Inr (ws, dc)"
| "xl_rows lib ws dc (row # rows) =
     (case py_float_num (amount row) of
        None \<Rightarrow> Inl int_too_large
      | Some a \<Rightarrow>
          (let cells = [str_cell (date row), str_cell (category row), CellNum a]
           in case append_error lib cells of
                Some msg \<Rightarrow> Inl msg
              | None \<Rightarrow> xl_rows lib (ws @ [cells]) (dc + 1) rows))"

definition xl_try :: "xl_library \<Rightarrow> transaction list \<Rightarrow> string \<Rightarrow> string + cell list list \<times> nat" where
  "xl_try lib transaction_list filename =
     (case append_error lib xl_header of
        Some msg \<Rightarrow> Inl msg
      | None \<Rightarrow>
          (case xl_rows lib [xl_header] 0 transaction_list of
             Inl msg \<Rightarrow> Inl msg
           | Inr (ws, dc) \<Rightarrow>
               (case save_error lib filename ws of
                  Some msg \<Rightarrow> Inl msg
                | None \<Rightarrow> Inr (ws, dc))))"

text \<open>
  The result: the exception that leaves the function, if any; the workbook saved, if any;
  the notices printed.
\<close>

definition save_to_excel ::
  "xl_library \<Rightarrow> transaction list \<Rightarrow> string \<Rightarrow> exn option \<times> cell list list option \<times> notice list" where
  "save_to_excel lib transaction_list filename =
     (case xl_try lib transaction_list filename of
        Inr (ws, dc) \<Rightarrow> (None, Some ws, [ExcelSavedNotice filename, ExcelCountNotice dc])
      | Inl msg \<Rightarrow> (None, None, [ExcelErrorNotice msg]))"

section \<open>The CSV file\<close>

text \<open>
  The file system is a map from file names to the text of the files.
  Carriage return, line feed and the double quote:
\<close>

definition CR :: char where "CR = CHR 0x0D"
definition LF :: char where "LF = CHR 0x0A"
definition DQ :: char where "DQ = CHR 0x22"

subsection \<open>\<open>save_to_csv\<close> (lines 82-93)\<close>

text \<open>
  \<open>csv.DictWriter\<close> with the default dialect: a field is written between quotes, its
  quotes doubled, when it holds a comma, a quote, a carriage return or a line feed; the
  fields are joined by commas; a row of one empty field is written as two quotes; every
  row ends with carriage return and line feed. \<open>None\<close> is written as the empty field and a
  number as its \<open>str\<close>.
\<close>

definition csv_special :: "char \<Rightarrow> bool" where
  "csv_special c \<longleftrightarrow> c = CHR '','' \<or> c = DQ \<or> c = CR \<or> c = LF"

definition csv_field :: "string \<Rightarrow> string" where
  "csv_field f =
     (if list_ex csv_special f
      then DQ # concat (map (\<lambda>c. if c = DQ then [DQ, DQ] else [c]) f) @ [DQ]
      else f)"

fun csv_join :: "string list \<Rightarrow> string" where
  "csv_join [] = []"
| "csv_join [f] = f"
| "csv_join (f # g # fs) = f @ CHR '','' # csv_join (g # fs)"

definition csv_writerow :: "string list \<Rightarrow> string" where
  "csv_writerow fs =
     (let body = csv_join (map csv_field fs)
      in (if fs \<noteq> [] \<and> body = [] then [DQ, DQ] else body) @ [CR, LF])"

definition str_or_empty :: "string option \<Rightarrow> string" where
  "str_or_empty v = (case v of None \<Rightarrow> [] | Some s \<Rightarrow> s)"

text \<open>
  \<open>writerows\<close>: a row whose amount has no \<open>str\<close> raises; the rows before it are in the
  file, which the \<open>with\<close> statement closes.
\<close>

fun csv_writerows ::
  "(pyfloat \<Rightarrow> string) \<Rightarrow> string \<Rightarrow> transaction list \<Rightarrow> exn option \<times> string" where
  "csv_writerows float_repr content [] = (None, content)"
| "csv_writerows float_repr content (row # rows) =
     (case py_str_num float_repr (amount row) of
        Inl e \<Rightarrow> (Some e, content)
      | Inr a \<Rightarrow>
          csv_writerows float_repr
            (content @ csv_writerow [str_or_empty (date row), str_or_empty (category row), a]) rows)"

definition save_to_csv ::
  "(pyfloat \<Rightarrow> string) \<Rightarrow> transaction list \<Rightarrow> string \<Rightarrow> (string \<rightharpoonup> string)
     \<Rightarrow> exn option \<times> (string \<rightharpoonup> string)" where
  "save_to_csv float_repr transaction_list filename fs =
     (case csv_writerows float_repr (csv_writerow fieldnames) transaction_list of
        (err, content) \<Rightarrow> (err, fs(filename \<mapsto> content)))"

subsection \<open>Reading a text file line by line\<close>

text \<open>
  \<open>open(filename, mode="r")\<close> translates each carriage return, with the line feed that may
  follow it, to a line feed. Iterating over the file gives its lines, each with its line
  feed; the last one may lack it.
\<close>

fun universal_newlines :: "string \<Rightarrow> string" where
  "universal_newlines [] = []"
| "universal_newlines [c] = [if c = CR then LF else c]"
| "universal_newlines (c # d # cs) =
     (if c = CR \<and> d = LF then LF # universal_newlines cs
      else if c = CR then LF # universal_newlines (d # cs)
      else c # universal_newlines (d # cs))"

fun lines_from :: "string \<Rightarrow> string \<Rightarrow> string list" where
  "lines_from cur [] = (if cur = [] then [] else [cur])"
| "lines_from cur (c # cs) =
     (if c = LF then (cur @ [c]) # lines_from [] cs else lines_from (cur @ [c]) cs)"

definition file_lines :: "string \<Rightarrow> string list" where
  "file_lines content = lines_from [] (universal_newlines content)"

subsection \<open>\<open>csv.reader\<close>\<close>

text \<open>
  The state machine of \<open>_csv.c\<close> for the default dialect (comma, double quote, doubled
  quotes, no escape character, not strict). A character is \<open>Some c\<close>; \<open>None\<close> is the end
  of a line. A field of more than 131072 characters is refused with \<open>csv.Error\<close>.
\<close>

datatype reader_state =
    START_RECORD | START_FIELD | IN_FIELD | IN_QUOTED_FIELD | QUOTE_IN_QUOTED_FIELD | EAT_CRNL

record parser =
  cur_fields :: "string list"
  cur_field :: string
  cur_state :: reader_state

definition field_limit :: nat where
  "field_limit = 131072"

definition parse_reset :: parser where
  "parse_reset = \<lparr>cur_fields = [], cur_field = [], cur_state = START_RECORD\<rparr>"

definition parse_save_field :: "parser \<Rightarrow> parser" where
  "parse_save_field p = p\<lparr>cur_fields := cur_fields p @ [cur_field p], cur_field := []\<rparr>"

definition parse_add_char :: "parser \<Rightarrow> char \<Rightarrow> exn + parser" where
  "parse_add_char p c =
     (if field_limit \<le> length (cur_field p) then Inl CsvError
      else Inr (p\<lparr>cur_field := cur_field p @ [c]\<rparr>))"

definition end_of_field :: "parser \<Rightarrow> char option \<Rightarrow> exn + parser" where
  "end_of_field p c =
     Inr ((parse_save_field p)\<lparr>cur_state := (if c = None then START_RECORD else EAT_CRNL)\<rparr>)"

definition is_line_end :: "char option \<Rightarrow> bool" where
  "is_line_end c \<longleftrightarrow> c = None \<or> c = Some LF \<or> c = Some CR"

definition start_field :: "parser \<Rightarrow> char option \<Rightarrow> exn + parser" where
  "start_field p c =
     (if is_line_end c then end_of_field p c
      else if c = Some DQ then Inr (p\<lparr>cur_state := IN_QUOTED_FIELD\<rparr>)
      else if c = Some (CHR '','') then Inr (parse_save_field p)
      else case parse_add_char p (the c) of
             Inl e \<Rightarrow> Inl e
           | Inr p' \<Rightarrow> Inr (p'\<lparr>cur_state := IN_FIELD\<rparr>))"

definition parse_process_char :: "parser \<Rightarrow> char option \<Rightarrow> exn + parser" where
  "parse_process_char p c =
     (case cur_state p of
        START_RECORD \<Rightarrow>
          if c = None then Inr p
          else if c = Some LF \<or> c = Some CR then Inr (p\<lparr>cur_state := EAT_CRNL\<rparr>)
          else start_field (p\<lparr>cur_state := START_FIELD\<rparr>) c
      | START_FIELD \<Rightarrow> start_field p c
      | IN_FIELD \<Rightarrow>
          if is_line_end c then end_of_field p c
          else if c = Some (CHR '','') then Inr ((parse_save_field p)\<lparr>cur_state := START_FIELD\<rparr>)
          else parse_add_char p (the c)
      | IN_QUOTED_FIELD \<Rightarrow>
          if c = None then Inr p
          else if c = Some DQ then Inr (p\<lparr>cur_state := QUOTE_IN_QUOTED_FIELD\<rparr>)
          else parse_add_char p (the c)
      | QUOTE_IN_QUOTED_FIELD \<Rightarrow>
          if c = Some DQ then
            (case parse_add_char p DQ of
               Inl e \<Rightarrow> Inl e
             | Inr p' \<Rightarrow> Inr (p'\<lparr>cur_state := IN_QUOTED_FIELD\<rparr>))
          else if c = Some (CHR '','') then Inr ((parse_save_field p)\<lparr>cur_state := START_FIELD\<rparr>)
          else if is_line_end c then end_of_field p c
          else (case parse_add_char p (the c) of
                  Inl e \<Rightarrow> Inl e
                | Inr p' \<Rightarrow> Inr (p'\<lparr>cur_state := IN_FIELD\<rparr>))
      | EAT_CRNL \<Rightarrow>
          if c = Some LF \<or> c = Some CR then Inr p
          else if c = None then Inr (p\<lparr>cur_state := START_RECORD\<rparr>)
          else Inl CsvError)"

fun parse_chars :: "parser \<Rightarrow> string \<Rightarrow> exn + parser" where
  "parse_chars p [] = Inr p"
| "parse_chars p (c # cs) =
     (case parse_process_char p (Some c) of Inl e \<Rightarrow> Inl e | Inr p' \<Rightarrow> parse_chars p' cs)"

definition parse_line :: "parser \<Rightarrow> string \<Rightarrow> exn + parser" where
  "parse_line p l =
     (case parse_chars p l of Inl e \<Rightarrow> Inl e | Inr p' \<Rightarrow> parse_process_char p' None)"

text \<open>
  All rows the reader yields, and the exception that ends the iteration if there is one
  (\<open>Reader_iternext\<close>, called until it stops): a row is complete when a line ends in the
  state \<open>START_RECORD\<close>; when the lines end inside a row, what has been read is the
  last row.
\<close>

fun reader_rows :: "parser \<Rightarrow> string list \<Rightarrow> string list list \<times> exn option" where
  "reader_rows p [] =
     (if cur_field p \<noteq> [] \<or> cur_state p = IN_QUOTED_FIELD
      then ([cur_fields (parse_save_field p)], None) else ([], None))"
| "reader_rows p (l # ls) =
     (case parse_line p l of
        Inl e \<Rightarrow> ([], Some e)
      | Inr p' \<Rightarrow>
          if cur_state p' = START_RECORD
          then (case reader_rows parse_reset ls of (rows, err) \<Rightarrow> (cur_fields p' # rows, err))
          else reader_rows p' ls)"

subsection \<open>\<open>load_from_csv\<close> (lines 98-121)\<close>

text \<open>
  \<open>csv.DictReader\<close>: the first row the reader yields is the list of the keys; each later
  row that is not empty becomes a \<open>dict\<close> in which the keys receive the fields in order,
  a later key of the same name winning, and the keys beyond the end of a short row
  receive \<open>None\<close>. The fields beyond the keys go under the key \<open>None\<close>, which the program
  never reads and the model leaves out.
\<close>

definition dict_row :: "string list \<Rightarrow> string list \<Rightarrow> (string \<rightharpoonup> string option)" where
  "dict_row keys row =
     map_of (rev (zip keys (map Some row @ replicate (length keys - length row) None)))"

text \<open>
  The \<open>dict\<close> display of lines 113-117 evaluates its three values in order: a missing key
  is a \<open>KeyError\<close>; \<open>float(None)\<close> is a \<open>TypeError\<close>; \<open>float\<close> of a text that is no number
  is a \<open>ValueError\<close>.
\<close>

definition load_row :: "(string \<rightharpoonup> string option) \<Rightarrow> exn + transaction" where
  "load_row row =
     (case row key_date of
        None \<Rightarrow> Inl KeyError
      | Some d \<Rightarrow>
          (case row key_category of
             None \<Rightarrow> Inl KeyError
           | Some c \<Rightarrow>
               (case row key_amount of
                  None \<Rightarrow> Inl KeyError
                | Some None \<Rightarrow> Inl TypeError
                | Some (Some a) \<Rightarrow>
                    (case py_float a of
                       Inl e \<Rightarrow> Inl e
                     | Inr f \<Rightarrow> Inr \<lparr>date = d, category = c, amount = PyFloat f\<rparr>))))"

text \<open>
  The list comprehension takes the rows one by one: the first row that fails ends it, and
  an exception of the reader is raised once the rows before it have been taken.
\<close>

fun load_rows :: "string list \<Rightarrow> string list list \<Rightarrow> exn option \<Rightarrow> exn + transaction list" where
  "load_rows keys [] err = (case err of None \<Rightarrow> Inr [] | Some e \<Rightarrow> Inl e)"
| "load_rows keys (row # rows) err =
     (if row = [] then load_rows keys rows err
      else case load_row (dict_row keys row) of
             Inl e \<Rightarrow> Inl e
           | Inr t \<Rightarrow>
               (case load_rows keys rows err of Inl e \<Rightarrow> Inl e | Inr ts \<Rightarrow> Inr (t # ts)))"

definition load_from_csv :: "(string \<rightharpoonup> string) \<Rightarrow> string \<Rightarrow> exn + transaction list" where
  "load_from_csv fs filename =
     (case fs filename of
        None \<Rightarrow> Inr []
      | Some content \<Rightarrow>
          (case reader_rows parse_reset (file_lines content) of
             ([], err) \<Rightarrow> (case err of None \<Rightarrow> Inr [] | Some e \<Rightarrow> Inl e)
           | (keys # rows, err) \<Rightarrow> load_rows keys rows err))"

section \<open>The menu loop (lines 201-236)\<close>

text \<open>
  A run of the program: how it ends, the ledger and the files at that moment, and what it
  printed. An exception that reaches the top level ends the program; so does the end of
  the standard input, where \<open>input\<close> raises \<open>EOFError\<close>. The workbook that menu entry 4
  saves is not kept among the files.
\<close>

datatype ending = Finished | Crashed exn

function main_loop ::
  "(pyfloat \<Rightarrow> string) \<Rightarrow> xl_library \<Rightarrow> transaction list \<Rightarrow> (string \<rightharpoonup> string) \<Rightarrow> string list
     \<Rightarrow> ending \<times> transaction list \<times> (string \<rightharpoonup> string) \<times> notice list" where
  "main_loop float_repr lib transactions fs [] = (Crashed EOFError, transactions, fs, [MenuNotice])"
| "main_loop float_repr lib transactions fs (choice # rest) =
     (if choice = ''1'' then
        (case add_transaction rest of
           (Inl e, rest', out) \<Rightarrow> (Crashed e, transactions, fs, MenuNotice # out)
         | (Inr t, rest', out) \<Rightarrow>
             (case save_to_csv float_repr (transactions @ [t]) csv_filename fs of
                (Some e, fs') \<Rightarrow> (Crashed e, transactions @ [t], fs', MenuNotice # out)
              | (None, fs') \<Rightarrow>
                  (case main_loop float_repr lib (transactions @ [t]) fs' rest' of
                     (e, ts, fs'', out') \<Rightarrow>
                       (e, ts, fs'', MenuNotice # out @ RegisteredNotice # out'))))
      else if choice = ''2'' then
        (case main_loop float_repr lib transactions fs rest of
           (e, ts, fs', out') \<Rightarrow> (e, ts, fs', MenuNotice # display_table transactions @ out'))
      else if choice = ''3'' then
        (case plot_graph transactions of
           Inl e \<Rightarrow> (Crashed e, transactions, fs, [MenuNotice])
         | Inr out \<Rightarrow>
             (case main_loop float_repr lib transactions fs rest of
                (e, ts, fs', out') \<Rightarrow> (e, ts, fs', MenuNotice # out @ out')))
      else if choice = ''4'' then
        (case save_to_excel lib transactions xlsx_filename of
           (Some e, wb, out) \<Rightarrow> (Crashed e, transactions, fs, MenuNotice # out)
         | (None, wb, out) \<Rightarrow>
             (case main_loop float_repr lib transactions fs rest of
                (e, ts, fs', out') \<Rightarrow> (e, ts, fs', MenuNotice # out @ out')))
      else if choice = ''5'' then
        (case save_to_csv float_repr transactions csv_filename fs of
           (Some e, fs') \<Rightarrow> (Crashed e, transactions, fs', [MenuNotice, ExitNotice])
         | (None, fs') \<Rightarrow> (Finished, transactions, fs', [MenuNotice, ExitNotice]))
      else
        (case main_loop float_repr lib transactions fs rest of
           (e, ts, fs', out') \<Rightarrow> (e, ts, fs', MenuNotice # BadChoiceNotice # out')))"
  by pat_completeness auto
termination
proof -
  have str_loop: "length (fst (snd (prompt_loop body stdin))) \<le> length stdin"
    for body :: "string \<Rightarrow> string attempt" and stdin
    by (induction stdin) (auto split: attempt.splits prod.splits)
  have int_loop: "length (fst (snd (prompt_loop body stdin))) \<le> length stdin"
    for body :: "string \<Rightarrow> int attempt" and stdin
    by (induction stdin) (auto split: attempt.splits prod.splits)
  have add: "length (fst (snd (add_transaction stdin))) \<le> length stdin" for stdin
  proof -
    obtain r1 s1 o1 where 1: "input_date stdin = (r1, s1, o1)"
      by (cases "input_date stdin") auto
    obtain r2 s2 o2 where 2: "input_category categories s1 = (r2, s2, o2)"
      by (cases "input_category categories s1") auto
    obtain r3 s3 o3 where 3: "input_amount s2 = (r3, s3, o3)"
      by (cases "input_amount s2") auto
    have "length s1 \<le> length stdin"
      using str_loop [of input_date_attempt stdin] 1 by (simp add: input_date_def)
    moreover have "length s2 \<le> length s1"
      using str_loop [of "input_category_attempt categories" s1] 2
      by (auto simp: input_category_def split: prod.splits)
    moreover have "length s3 \<le> length s2"
      using int_loop [of input_amount_attempt s2] 3 by (simp add: input_amount_def)
    ultimately show ?thesis
      using 1 2 3 by (auto simp: add_transaction_def split: sum.splits)
  qed
  show ?thesis
    apply (relation "measure (\<lambda>(float_repr, lib, transactions, fs, stdin). length stdin)")
          apply simp_all
    subgoal for float_repr transactions fs choice rest x y b xa ya xb yb
      using add [of rest] by (cases "add_transaction rest") auto
    done
qed

declare main_loop.simps [simp del]

text \<open>The program: the ledger is what \<open>load_from_csv\<close> returns (line 203), then the menu.\<close>

definition wallet ::
  "(pyfloat \<Rightarrow> string) \<Rightarrow> xl_library \<Rightarrow> (string \<rightharpoonup> string) \<Rightarrow> string list
     \<Rightarrow> ending \<times> transaction list \<times> (string \<rightharpoonup> string) \<times> notice list" where
  "wallet float_repr lib fs stdin =
     (case load_from_csv fs csv_filename of
        Inl e \<Rightarrow> (Crashed e, [], fs, [])
      | Inr transactions \<Rightarrow> main_loop float_repr lib transactions fs stdin)"

chapter \<open>What the statements speak of\<close>




text \<open>The cells of the sheet row of a transaction.\<close>

definition row_cells :: "transaction \<Rightarrow> cell list" where
  "row_cells row =
     [str_cell (date row), str_cell (category row), CellNum (the (py_float_num (amount row)))]"

text \<open>
  The elements of a list in the order of their first appearance; the amounts, as floats, of
  the rows of one category, in the order of the rows; the sum of a non-empty list of floats
  from left to right.
\<close>

fun first_appearances :: "'a list \<Rightarrow> 'a list" where
  "first_appearances [] = []"
| "first_appearances (x # xs) = x # filter (\<lambda>y. y \<noteq> x) (first_appearances xs)"

definition amounts_of :: "string option \<Rightarrow> transaction list \<Rightarrow> pyfloat list" where
  "amounts_of c rows = map (\<lambda>r. the (py_float_num (amount r))) (filter (\<lambda>r. category r = c) rows)"

definition float_sum :: "pyfloat list \<Rightarrow> pyfloat" where
  "float_sum as = foldl float_add (hd as) (tl as)"

text \<open>Sample inputs for the instances below.\<close>

definition no_failures :: xl_library where
  "no_failures = \<lparr>append_error = (\<lambda>_. None), save_error = (\<lambda>_ _. None)\<rparr>"

definition disk_full :: xl_library where
  "disk_full =
     \<lparr>append_error = (\<lambda>_. None), save_error = (\<lambda>_ _. Some ''No space left on device'')\<rparr>"

definition two_rows :: "transaction list" where
  "two_rows =
     [\<lparr>date = Some ''2025/01/01'', category = Some (categories ! 0), amount = PyInt 100\<rparr>,
      \<lparr>date = Some ''2025/01/02'', category = Some (categories ! 1), amount = PyInt 50\<rparr>]"

chapter \<open>Properties\<close>

section \<open>Evaluation on numerals\<close>

text \<open>
  The recursive functions on numbers are unfolded on numerals only, so that the simplifier
  evaluates them on concrete inputs and leaves them alone elsewhere.
\<close>

lemma bit_length_0 [simp]: "bit_length 0 = 0" by (simp add: bit_length.simps)
lemma bit_length_1 [simp]: "bit_length 1 = 1" by (simp add: bit_length.simps)
lemma bit_length_Suc_0 [simp]: "bit_length (Suc 0) = 1" by (simp add: bit_length.simps)
lemma bit_length_numeral [simp]: "bit_length (numeral k) = Suc (bit_length (numeral k div 2))"
  by (subst bit_length.simps) simp
lemma norm_float_0 [simp]: "norm_float 0 e = Finite 0 0" by (simp add: norm_float.simps)
lemma norm_float_1 [simp]: "norm_float 1 e = Finite 1 e" by (simp add: norm_float.simps)
lemma norm_float_m1 [simp]: "norm_float (- 1) e = Finite (- 1) e" by (simp add: norm_float.simps)
lemma norm_float_numeral [simp]:
  "norm_float (numeral k) e =
     (if even (numeral k :: int) then norm_float (numeral k div 2) (e + 1) else Finite (numeral k) e)"
  by (subst norm_float.simps) simp
lemma norm_float_neg_numeral [simp]:
  "norm_float (- numeral k) e =
     (if even (numeral k :: int) then norm_float (- numeral k div 2) (e + 1) else Finite (- numeral k) e)"
  by (subst norm_float.simps) simp
lemma nat_digits_numeral [simp]:
  "nat_digits (numeral k) =
     (if (numeral k :: nat) < 10 then [digit_char (numeral k)]
      else nat_digits (numeral k div 10) @ [digit_char (numeral k mod 10)])"
  by (subst nat_digits.simps) simp
lemma nat_digits_0 [simp]: "nat_digits 0 = ''0''" by (simp add: nat_digits.simps digit_char_def)
lemma nat_digits_1 [simp]: "nat_digits 1 = ''1''" by (simp add: nat_digits.simps digit_char_def)
lemma nat_digits_Suc_0 [simp]: "nat_digits (Suc 0) = ''1''" by (simp add: nat_digits.simps digit_char_def)

lemmas text_defs = is_digit_def digit_val_def py_isspace_def split_sign_def nonzero_digit_def
lemmas float_defs = decimal_float_def nearest_float_def round_ratio_def round_half_even_def Let_def
lemmas py_float_defs = py_float_def py_strip_def parse_float_body_def lower_ascii_def
  parse_decimal_def parse_exponent_def
lemmas py_int_defs = py_int_def max_str_digits_def Let_def
lemmas amount_defs = input_amount_attempt_def handle_value_error_def int_of_float_def
lemmas date_defs = input_date_attempt_def handle_value_error_def strptime_Ymd_def match_Y_def
  match_m_def match_d_def days_in_month_def is_leap_def


section \<open>The parsers raise \<open>ValueError\<close> only\<close>



section \<open>Choosing a category\<close>



section \<open>Typing an amount\<close>






text \<open>
  Claim C9. The text \<open>inf\<close> is a float to \<open>float\<close>, and \<open>int\<close> of that float raises
  \<open>OverflowError\<close>, which \<open>except ValueError\<close> does not catch (for \<open>nan\<close> \<open>int\<close> raises
  \<open>ValueError\<close>, which it does): the exception leaves \<open>input_amount\<close> and
  \<open>add_transaction\<close> and ends the program.
\<close>

theorem input_amount_overflow:
  "input_amount_attempt ''inf'' = Uncaught OverflowError \<and>
   input_amount_attempt ''nan'' = Retry AmountNotNumberNotice \<and>
   fst (input_amount (''inf'' # stdin)) = Inl OverflowError \<and>
   fst (add_transaction (''2025/01/01'' # ''1'' # ''inf'' # stdin)) = Inl OverflowError \<and>
   fst (wallet float_repr lib Map.empty (''1'' # ''2025/01/01'' # ''1'' # ''inf'' # stdin)) =
     Crashed OverflowError"
proof -
  have inf: "input_amount_attempt ''inf'' = Uncaught OverflowError"
    by (simp add: amount_defs py_float_defs float_defs text_defs)
  have nan: "input_amount_attempt ''nan'' = Retry AmountNotNumberNotice"
    by (simp add: amount_defs py_float_defs float_defs text_defs)
  have d: "input_date_attempt ''2025/01/01'' = Return ''2025/01/01''"
    by (simp add: date_defs text_defs)
  have c: "input_category_attempt categories ''1'' = Return (categories ! 0)"
    by (simp add: input_category_attempt_def py_int_defs text_defs categories_def)
  have add: "fst (add_transaction (''2025/01/01'' # ''1'' # ''inf'' # stdin)) = Inl OverflowError"
    by (simp add: add_transaction_def input_date_def input_category_def input_amount_def inf d c)
  have "fst (main_loop float_repr lib [] Map.empty (''1'' # ''2025/01/01'' # ''1'' # ''inf'' # stdin)) =
      Crashed OverflowError"
    using add by (subst main_loop.simps) (auto split: prod.splits sum.splits)
  then show ?thesis
    using inf nan add by (simp add: wallet_def load_from_csv_def input_amount_def)
qed

section \<open>Loading when there is no file\<close>

text \<open>
  Claim C6. Where no file of the name exists, \<open>load_from_csv\<close> returns the empty list and
  raises nothing; with no \<open>wallet_data.csv\<close> the program starts its menu loop on the empty
  ledger.
\<close>

theorem load_missing_file:
  "fs filename = None \<Longrightarrow>
     load_from_csv fs filename = Inr [] \<and>
     (filename = csv_filename \<longrightarrow>
        wallet float_repr lib fs stdin = main_loop float_repr lib [] fs stdin)"
  by (auto simp: load_from_csv_def wallet_def)

theorem load_missing_file_witness:
  "(Map.empty :: string \<rightharpoonup> string) csv_filename = None \<and>
   load_from_csv Map.empty csv_filename = Inr [] \<and>
   wallet (\<lambda>_. []) no_failures Map.empty [] = (Crashed EOFError, [], Map.empty, [MenuNotice])"
proof -
  have "(Map.empty :: string \<rightharpoonup> string) csv_filename = None" by simp
  from load_missing_file [where fs = Map.empty and filename = csv_filename
      and float_repr = "\<lambda>_. []" and lib = no_failures and stdin = "[]", OF this]
  show ?thesis by (simp add: main_loop.simps)
qed

section \<open>Exporting to a workbook\<close>

lemma xl_rows_Inr:
  "xl_rows lib ws dc rows = Inr (ws', dc') \<Longrightarrow>
     ws' = ws @ map row_cells rows \<and> dc' = dc + length rows \<and>
     (\<forall>row \<in> set rows. py_float_num (amount row) \<noteq> None \<and> append_error lib (row_cells row) = None)"
proof (induction rows arbitrary: ws dc)
  case Nil
  then show ?case by simp
next
  case (Cons row rows)
  from Cons.prems obtain a where a: "py_float_num (amount row) = Some a"
    and ap: "append_error lib (row_cells row) = None"
    and rec: "xl_rows lib (ws @ [row_cells row]) (dc + 1) rows = Inr (ws', dc')"
    by (auto simp: Let_def row_cells_def split: option.splits)
  from Cons.IH [OF rec] a ap show ?case by simp
qed

lemma xl_rows_Inl:
  "xl_rows lib ws dc rows = Inl msg \<Longrightarrow>
     (\<exists>row \<in> set rows. py_float_num (amount row) = None \<and> msg = int_too_large) \<or>
     (\<exists>row \<in> set rows. append_error lib (row_cells row) = Some msg)"
proof (induction rows arbitrary: ws dc)
  case Nil
  then show ?case by simp
next
  case (Cons row rows)
  show ?case
  proof (cases "py_float_num (amount row)")
    case None
    with Cons.prems show ?thesis by simp
  next
    case (Some a)
    show ?thesis
    proof (cases "append_error lib (row_cells row)")
      case None
      with Some Cons.prems have "xl_rows lib (ws @ [row_cells row]) (dc + 1) rows = Inl msg"
        by (simp add: Let_def row_cells_def)
      from Cons.IH [OF this] show ?thesis by auto
    next
      case (Some m)
      with \<open>py_float_num (amount row) = Some a\<close> Cons.prems have "m = msg"
        by (simp add: Let_def row_cells_def)
      with Some show ?thesis by simp
    qed
  qed
qed

lemma xl_rows_ok:
  "\<forall>row \<in> set rows. py_float_num (amount row) \<noteq> None \<and> append_error lib (row_cells row) = None \<Longrightarrow>
     xl_rows lib ws dc rows = Inr (ws @ map row_cells rows, dc + length rows)"
  by (induction rows arbitrary: ws dc) (auto simp: Let_def row_cells_def)

lemma float_of_int_100: "float_of_int 100 = Some (Finite 25 2)"
  by (simp add: float_of_int_def float_defs)
lemma float_of_int_50: "float_of_int 50 = Some (Finite 25 1)"
  by (simp add: float_of_int_def float_defs)

text \<open>
  Claim C7. An export that succeeds has written the header row followed by one row for
  each of the \<open>N\<close> records, in order, and reports the count \<open>N\<close>. The export succeeds
  whenever every amount has a float and the library refuses no row and saves the file.
\<close>

theorem save_to_excel_count:
  "(save_to_excel lib transaction_list filename = (r, Some ws, out) \<longrightarrow>
      r = None \<and> ws = xl_header # map row_cells transaction_list \<and>
      length ws = Suc (length transaction_list) \<and>
      out = [ExcelSavedNotice filename, ExcelCountNotice (length transaction_list)]) \<and>
   (append_error lib xl_header = None \<and>
    (\<forall>row \<in> set transaction_list.
        py_float_num (amount row) \<noteq> None \<and> append_error lib (row_cells row) = None) \<and>
    save_error lib filename (xl_header # map row_cells transaction_list) = None \<longrightarrow>
      save_to_excel lib transaction_list filename =
        (None, Some (xl_header # map row_cells transaction_list),
         [ExcelSavedNotice filename, ExcelCountNotice (length transaction_list)]))"
proof (intro conjI impI)
  assume ok: "append_error lib xl_header = None \<and>
    (\<forall>row \<in> set transaction_list.
        py_float_num (amount row) \<noteq> None \<and> append_error lib (row_cells row) = None) \<and>
    save_error lib filename (xl_header # map row_cells transaction_list) = None"
  then have "xl_rows lib [xl_header] 0 transaction_list =
      Inr ([xl_header] @ map row_cells transaction_list, 0 + length transaction_list)"
    using xl_rows_ok [of transaction_list lib "[xl_header]" 0] by blast
  with ok show "save_to_excel lib transaction_list filename =
        (None, Some (xl_header # map row_cells transaction_list),
         [ExcelSavedNotice filename, ExcelCountNotice (length transaction_list)])"
    by (simp add: save_to_excel_def xl_try_def)
next
  assume saved: "save_to_excel lib transaction_list filename = (r, Some ws, out)"
  then obtain dc where tr: "xl_try lib transaction_list filename = Inr (ws, dc)"
    and r: "r = None" and out: "out = [ExcelSavedNotice filename, ExcelCountNotice dc]"
    by (auto simp: save_to_excel_def split: sum.splits)
  from tr have "xl_rows lib [xl_header] 0 transaction_list = Inr (ws, dc)"
    by (auto simp: xl_try_def split: option.splits sum.splits)
  from xl_rows_Inr [OF this]
  have ws: "ws = xl_header # map row_cells transaction_list" and dc: "dc = length transaction_list"
    by simp_all
  show "r = None" by (rule r)
  show "ws = xl_header # map row_cells transaction_list" by (rule ws)
  show "length ws = Suc (length transaction_list)" by (simp add: ws)
  show "out = [ExcelSavedNotice filename, ExcelCountNotice (length transaction_list)]"
    by (simp add: out dc)
qed

theorem save_to_excel_count_witness:
  "save_to_excel no_failures two_rows ''book.xlsx'' =
     (None, Some (xl_header # map row_cells two_rows),
      [ExcelSavedNotice ''book.xlsx'', ExcelCountNotice 2]) \<and>
   length (xl_header # map row_cells two_rows) = 3"
proof -
  have "append_error no_failures xl_header = None \<and>
    (\<forall>row \<in> set two_rows.
        py_float_num (amount row) \<noteq> None \<and> append_error no_failures (row_cells row) = None) \<and>
    save_error no_failures ''book.xlsx'' (xl_header # map row_cells two_rows) = None"
    by (simp add: no_failures_def two_rows_def py_float_num_def float_of_int_100 float_of_int_50)
  with save_to_excel_count [of no_failures two_rows "''book.xlsx''" None "xl_header # map row_cells two_rows"
      "[ExcelSavedNotice ''book.xlsx'', ExcelCountNotice 2]"]
  show ?thesis by (simp add: two_rows_def)
qed

text \<open>
  Claim C8. No exception leaves \<open>save_to_excel\<close>. Where the \<open>try\<close> block raises, with
  the message \<open>msg\<close> (that of the \<open>OverflowError\<close> of an amount too large for a float, of a
  row the library refuses, or of the save that fails), the function prints the notice of
  line 199 with \<open>msg\<close> and saves nothing; the menu loop goes on with the ledger it had.
\<close>

theorem save_to_excel_failure:
  "fst (save_to_excel lib transaction_list filename) = None \<and>
   (xl_try lib transaction_list filename = Inl msg \<longrightarrow>
      save_to_excel lib transaction_list filename = (None, None, [ExcelErrorNotice msg]) \<and>
      ((\<exists>row \<in> set transaction_list. py_float_num (amount row) = None \<and> msg = int_too_large) \<or>
       (\<exists>cells. append_error lib cells = Some msg) \<or>
       (\<exists>ws. save_error lib filename ws = Some msg))) \<and>
   (xl_try lib transaction_list xlsx_filename = Inl msg \<longrightarrow>
      main_loop float_repr lib transaction_list fs (''4'' # stdin) =
        (case main_loop float_repr lib transaction_list fs stdin of
           (e, ts, fs', out') \<Rightarrow> (e, ts, fs', MenuNotice # ExcelErrorNotice msg # out')))"
proof (intro conjI impI)
  show "fst (save_to_excel lib transaction_list filename) = None"
    by (simp add: save_to_excel_def split: sum.splits)
next
  assume fail: "xl_try lib transaction_list filename = Inl msg"
  then show "save_to_excel lib transaction_list filename = (None, None, [ExcelErrorNotice msg])"
    by (simp add: save_to_excel_def)
  from fail show "(\<exists>row \<in> set transaction_list. py_float_num (amount row) = None \<and> msg = int_too_large) \<or>
       (\<exists>cells. append_error lib cells = Some msg) \<or>
       (\<exists>ws. save_error lib filename ws = Some msg)"
    by (auto simp: xl_try_def split: option.splits sum.splits dest!: xl_rows_Inl)
next
  assume fail: "xl_try lib transaction_list xlsx_filename = Inl msg"
  then show "main_loop float_repr lib transaction_list fs (''4'' # stdin) =
        (case main_loop float_repr lib transaction_list fs stdin of
           (e, ts, fs', out') \<Rightarrow> (e, ts, fs', MenuNotice # ExcelErrorNotice msg # out'))"
    by (subst main_loop.simps) (simp add: save_to_excel_def split: prod.splits)
qed

theorem save_to_excel_failure_witness:
  "xl_try disk_full two_rows xlsx_filename = Inl ''No space left on device'' \<and>
   save_to_excel disk_full two_rows xlsx_filename =
     (None, None, [ExcelErrorNotice ''No space left on device'']) \<and>
   main_loop (\<lambda>_. []) disk_full two_rows Map.empty [''4''] =
     (Crashed EOFError, two_rows, Map.empty,
      [MenuNotice, ExcelErrorNotice ''No space left on device'', MenuNotice])"
proof -
  have f: "xl_try disk_full two_rows xlsx_filename = Inl ''No space left on device''"
    by (simp add: xl_try_def disk_full_def two_rows_def py_float_num_def float_of_int_100
        float_of_int_50 Let_def)
  have m: "main_loop (\<lambda>_. []) disk_full two_rows Map.empty [] =
      (Crashed EOFError, two_rows, Map.empty, [MenuNotice])"
    by (simp add: main_loop.simps)
  from save_to_excel_failure [of disk_full two_rows xlsx_filename "''No space left on device''"
      "\<lambda>_. []" Map.empty "[]"] f m
  show ?thesis by simp
qed

end
